theory Spec2Isabelle
  imports Complex_Main "HOL-Library.AList"
begin

section \<open>JavaScript values\<close>

text \<open>
  The values that flow through the client: form fields after coercion, request
  payloads and parsed JSON responses.

  A JavaScript Number is an IEEE double. Here a finite number is an exact rational:
  the rounding of double arithmetic (and with it overflow to Infinity and the sign
  of zero) is not part of the model. \<open>NaN\<close> and the two infinities are kept, since
  the code's behaviour on them differs from its behaviour on finite numbers.

  A string is a list of bytes: ASCII text as it stands, the fixed Chinese texts of
  the source in UTF-8.
\<close>

datatype jsnum = NaN | PosInf | NegInf | Fin rat

datatype jsval =
    JUndefined
  | JNull
  | JBool bool
  | JNum jsnum
  | JStr string
  | JArr "jsval list"
  | JObj "(string \<times> jsval) list"

type_synonym jsobject = "(string \<times> jsval) list"

text \<open>Property read \<open>obj[key]\<close> on a plain object: \<open>undefined\<close> when the key is absent
  (properties inherited from \<open>Object.prototype\<close> are not modelled).\<close>

definition get_prop :: "jsobject \<Rightarrow> string \<Rightarrow> jsval" where
  "get_prop obj k = (case map_of obj k of None \<Rightarrow> JUndefined | Some v \<Rightarrow> v)"

text \<open>Property write \<open>obj[key] = v\<close>: a new key is appended, an existing key keeps its
  place and takes the new value.\<close>

definition set_prop :: "jsobject \<Rightarrow> string \<Rightarrow> jsval \<Rightarrow> jsobject" where
  "set_prop obj k v = AList.update k v obj"

subsection \<open>Arithmetic on numbers\<close>

fun num_neg :: "jsnum \<Rightarrow> jsnum" where
  "num_neg NaN = NaN"
| "num_neg PosInf = NegInf"
| "num_neg NegInf = PosInf"
| "num_neg (Fin x) = Fin (- x)"





section \<open>Reading numbers from strings\<close>

text \<open>
  \<open>isNaN(value)\<close> applied to a string converts it with \<open>Number\<close> (the
  StringNumericLiteral grammar of ECMAScript: optional white space around either
  nothing, a signed decimal literal, \<open>Infinity\<close>, or an unsigned 0x/0o/0b
  literal). \<open>parseFloat\<close> skips leading white space and reads the longest prefix
  that is a signed decimal literal or \<open>Infinity\<close>. Both are functions of the
  language, modelled here from its definition.
\<close>

text \<open>White space: tab, line feed, vertical tab, form feed, carriage return and space
  (the white space characters outside ASCII are not modelled).\<close>

definition is_ws :: "char \<Rightarrow> bool" where
  "is_ws c = (of_char c \<in> {9::nat, 10, 11, 12, 13, 32})"

definition is_digit :: "char \<Rightarrow> bool" where
  "is_digit c = (48 \<le> (of_char c :: nat) \<and> (of_char c :: nat) \<le> 57)"

definition digit_val :: "char \<Rightarrow> nat" where
  "digit_val c = of_char c - 48"

text \<open>The value of a hexadecimal digit, if the character is one.\<close>

definition hex_val :: "char \<Rightarrow> nat option" where
  "hex_val c =
     (let n = (of_char c :: nat) in
      if 48 \<le> n \<and> n \<le> 57 then Some (n - 48)
      else if 97 \<le> n \<and> n \<le> 102 then Some (n - 87)
      else if 65 \<le> n \<and> n \<le> 70 then Some (n - 55)
      else None)"

definition radix_digit :: "nat \<Rightarrow> char \<Rightarrow> bool" where
  "radix_digit b c = (case hex_val c of None \<Rightarrow> False | Some d \<Rightarrow> d < b)"

definition radix_value :: "nat \<Rightarrow> string \<Rightarrow> nat" where
  "radix_value b ds = foldl (\<lambda>a c. b * a + the (hex_val c)) 0 ds"

definition digits_value :: "string \<Rightarrow> nat" where
  "digits_value ds = foldl (\<lambda>a c. 10 * a + digit_val c) 0 ds"

definition trim :: "string \<Rightarrow> string" where
  "trim s = rev (dropWhile is_ws (rev (dropWhile is_ws s)))"

text \<open>\<open>m \<times> 10\<^sup>e\<close> for an integer exponent.\<close>

definition scale10 :: "rat \<Rightarrow> int \<Rightarrow> rat" where
  "scale10 m e = (if 0 \<le> e then m * 10 ^ nat e else m / 10 ^ nat (- e))"

text \<open>An exponent part at the head of the input: \<open>e\<close> or \<open>E\<close>, an optional sign and
  at least one digit. When there is none, the exponent is 0 and nothing is consumed.\<close>

definition read_exponent :: "string \<Rightarrow> int \<times> string" where
  "read_exponent s =
     (case s of
        [] \<Rightarrow> (0, s)
      | c # r \<Rightarrow>
          if c = CHR ''e'' \<or> c = CHR ''E'' then
            (let (neg, r') =
                   (case r of
                      [] \<Rightarrow> (False, r)
                    | d # t \<Rightarrow> if d = CHR ''-'' then (True, t)
                               else if d = CHR ''+'' then (False, t) else (False, r));
                 ds = takeWhile is_digit r'
             in if ds = [] then (0, s)
                else ((if neg then - int (digits_value ds) else int (digits_value ds)),
                      dropWhile is_digit r'))
          else (0, s))"

text \<open>The longest prefix that is an unsigned decimal literal (StrUnsignedDecimalLiteral),
  with its value and the rest of the input.\<close>

definition read_unsigned :: "string \<Rightarrow> (jsnum \<times> string) option" where
  "read_unsigned s =
     (if take 8 s = ''Infinity'' then Some (PosInf, drop 8 s)
      else
        let ip = takeWhile is_digit s; r1 = dropWhile is_digit s in
        (case r1 of
           c # r2 \<Rightarrow>
             if c = CHR ''.'' then
               (let fp = takeWhile is_digit r2; r3 = dropWhile is_digit r2 in
                if ip = [] \<and> fp = [] then None
                else
                  let (e, r4) = read_exponent r3 in
                  Some (Fin (scale10 (of_nat (digits_value (ip @ fp))) (e - int (length fp))), r4))
             else if ip = [] then None
             else
               (let (e, r4) = read_exponent r1 in
                Some (Fin (scale10 (of_nat (digits_value ip)) e), r4))
         | [] \<Rightarrow>
             if ip = [] then None else Some (Fin (of_nat (digits_value ip)), [])))"

text \<open>The longest prefix that is a signed decimal literal (StrDecimalLiteral).\<close>

definition read_decimal :: "string \<Rightarrow> (jsnum \<times> string) option" where
  "read_decimal s =
     (case s of
        [] \<Rightarrow> None
      | c # r \<Rightarrow>
          if c = CHR ''-'' then map_option (\<lambda>(v, t). (num_neg v, t)) (read_unsigned r)
          else if c = CHR ''+'' then read_unsigned r
          else read_unsigned s)"

text \<open>\<open>parseFloat(string)\<close>.\<close>

definition parseFloat :: "string \<Rightarrow> jsnum" where
  "parseFloat s =
     (case read_decimal (dropWhile is_ws s) of None \<Rightarrow> NaN | Some (v, _) \<Rightarrow> v)"

text \<open>An unsigned literal with a radix prefix: \<open>0x\<close>, \<open>0o\<close> or \<open>0b\<close> (either case)
  followed by at least one digit of that radix and nothing else.\<close>

definition read_radix_literal :: "string \<Rightarrow> nat option" where
  "read_radix_literal s =
     (case s of
        z # p # ds \<Rightarrow>
          if z = CHR ''0'' \<and> ds \<noteq> [] then
            (let b = (if p = CHR ''x'' \<or> p = CHR ''X'' then 16
                      else if p = CHR ''o'' \<or> p = CHR ''O'' then 8
                      else if p = CHR ''b'' \<or> p = CHR ''B'' then 2 else (0::nat))
             in if b \<noteq> 0 \<and> list_all (radix_digit b) ds then Some (radix_value b ds) else None)
          else None
      | _ \<Rightarrow> None)"

text \<open>\<open>Number(string)\<close>: the conversion behind \<open>isNaN\<close>.\<close>

definition string_to_number :: "string \<Rightarrow> jsnum" where
  "string_to_number s =
     (let t = trim s in
      if t = [] then Fin 0
      else case read_radix_literal t of
             Some n \<Rightarrow> Fin (of_nat n)
           | None \<Rightarrow>
               (case read_decimal t of
                  Some (v, []) \<Rightarrow> v
                | _ \<Rightarrow> NaN))"

text \<open>The global \<open>isNaN\<close> on a string.\<close>

definition isNaN :: "string \<Rightarrow> bool" where
  "isNaN s = (string_to_number s = NaN)"

section \<open>APIUtils: form data\<close>

text \<open>
  One step of the loop of \<open>formDataToObject\<close>: the value stored for a field. A form
  entry's value is a string here (file entries are not modelled), so the test
  \<open>value === null\<close> never holds.
\<close>

definition coerce_field :: "string \<Rightarrow> jsval" where
  "coerce_field v =
     (if v = [] then JNull
      else if \<not> isNaN v \<and> v \<noteq> [] then JNum (parseFloat v)
      else if v = ''true'' then JBool True
      else if v = ''false'' then JBool False
      else JStr v)"

fun formDataToObject_loop :: "jsobject \<Rightarrow> (string \<times> string) list \<Rightarrow> jsobject" where
  "formDataToObject_loop obj [] = obj"
| "formDataToObject_loop obj ((k, v) # es) =
     formDataToObject_loop (set_prop obj k (coerce_field v)) es"

definition formDataToObject :: "(string \<times> string) list \<Rightarrow> jsobject" where
  "formDataToObject entries = formDataToObject_loop [] entries"





section \<open>APIUtils: formatting\<close>

datatype error_kind = Error | TypeError | SyntaxError | RangeError

text \<open>A thrown error: its constructor and its \<open>message\<close>.\<close>

datatype error = Thrown (kind: error_kind) (message: string)










section \<open>Conversions between values\<close>

definition digit_char :: "nat \<Rightarrow> char" where
  "digit_char d = ''0123456789'' ! d"

text \<open>Decimal digits of a natural number.\<close>

fun show_nat :: "nat \<Rightarrow> string" where
  "show_nat n =
     (if n < 10 then [digit_char n] else show_nat (n div 10) @ [digit_char (n mod 10)])"

text \<open>
  \<open>Number::toString\<close>. An integer below \<open>10\<^sup>2\<^sup>1\<close> in absolute value prints its
  decimal digits; the digits of every other finite number (fractions, exponent
  notation) are the platform's, the parameter \<open>digits\<close>.
\<close>

fun number_to_string :: "(rat \<Rightarrow> string) \<Rightarrow> jsnum \<Rightarrow> string" where
  "number_to_string digits NaN = ''NaN''"
| "number_to_string digits PosInf = ''Infinity''"
| "number_to_string digits NegInf = ''-Infinity''"
| "number_to_string digits (Fin x) =
     (if x = of_int \<lfloor>x\<rfloor> \<and> \<bar>x\<bar> < 10 ^ 21
      then (if x < 0 then ''-'' else []) @ show_nat (nat \<bar>\<lfloor>x\<rfloor>\<bar>)
      else digits x)"

text \<open>\<open>Array.prototype.join\<close> on strings already converted.\<close>

fun join :: "string \<Rightarrow> string list \<Rightarrow> string" where
  "join sep [] = []"
| "join sep [x] = x"
| "join sep (x # y # ys) = x @ sep @ join sep (y # ys)"

text \<open>\<open>ToString\<close>: an array joins its elements with commas (\<open>null\<close> and \<open>undefined\<close>
  elements print as nothing), a plain object prints as \<open>[object Object]\<close>.\<close>

fun to_string :: "(rat \<Rightarrow> string) \<Rightarrow> jsval \<Rightarrow> string" where
  "to_string digits JUndefined = ''undefined''"
| "to_string digits JNull = ''null''"
| "to_string digits (JBool b) = (if b then ''true'' else ''false'')"
| "to_string digits (JNum n) = number_to_string digits n"
| "to_string digits (JStr s) = s"
| "to_string digits (JArr xs) =
     join '','' (map (\<lambda>x. if x = JUndefined \<or> x = JNull then [] else to_string digits x) xs)"
| "to_string digits (JObj kvs) = ''[object Object]''"






text \<open>Truthiness, as \<open>&&\<close>, \<open>||\<close> and \<open>if\<close> test it.\<close>

fun truthy :: "jsval \<Rightarrow> bool" where
  "truthy JUndefined = False"
| "truthy JNull = False"
| "truthy (JBool b) = b"
| "truthy (JNum n) = (n \<noteq> NaN \<and> n \<noteq> Fin 0)"
| "truthy (JStr s) = (s \<noteq> [])"
| "truthy (JArr _) = True"
| "truthy (JObj _) = True"

section \<open>InvestmentAPI\<close>

text \<open>
  What \<open>fetch\<close> is given, and what it resolves to. The request keeps the value handed
  to \<open>JSON.stringify\<close> rather than its text; the response carries what
  \<open>response.json()\<close> yields, the parsed body or the error of the parse.
\<close>

record request =
  url :: string
  http_method :: string
  headers :: "(string \<times> string) list"
  body :: "jsval option"

record response =
  status :: nat
  statusText :: string
  json_body :: "error + jsval"

text \<open>\<open>fetch\<close> is the network: it rejects with an error on a transport failure and
  resolves to a response otherwise, whatever the status.\<close>

type_synonym fetcher = "request \<Rightarrow> error + response"

text \<open>\<open>response.ok\<close>: the status is in the range 200 to 299.\<close>

definition ok :: "response \<Rightarrow> bool" where
  "ok r = (200 \<le> status r \<and> status r \<le> 299)"

definition API_BASE :: string where
  "API_BASE = ''/api/v1''"

definition build_request :: "string \<Rightarrow> jsval \<Rightarrow> string \<Rightarrow> request" where
  "build_request endpoint data method =
     \<lparr>url = API_BASE @ endpoint,
      http_method = method,
      headers = [(''Content-Type'', ''application/json'')],
      body = (if truthy data \<and> method \<noteq> ''GET'' then Some data else None)\<rparr>"

text \<open>\<open>errorData?.detail\<close>: \<open>undefined\<close> on \<open>null\<close> and \<open>undefined\<close>, the property on an
  object, \<open>undefined\<close> on any other value (none has a property of that name).\<close>

fun optional_detail :: "jsval \<Rightarrow> jsval" where
  "optional_detail (JObj kvs) = get_prop kvs ''detail''"
| "optional_detail _ = JUndefined"

definition status_message :: "response \<Rightarrow> string" where
  "status_message r = ''HTTP '' @ show_nat (status r) @ '': '' @ statusText r"

text \<open>The message of the error thrown on a response that is not ok.\<close>

definition failure_message :: "(rat \<Rightarrow> string) \<Rightarrow> response \<Rightarrow> string" where
  "failure_message digits r =
     (let errorData = (case json_body r of Inl _ \<Rightarrow> JNull | Inr v \<Rightarrow> v);
          detail = optional_detail errorData
      in if truthy detail then to_string digits detail else status_message r)"

text \<open>\<open>call(endpoint, data, method)\<close>. The \<open>catch\<close> block logs the error and throws it
  again unchanged; the console is not part of the model.\<close>

definition call :: "fetcher \<Rightarrow> (rat \<Rightarrow> string) \<Rightarrow> string \<Rightarrow> jsval \<Rightarrow> string \<Rightarrow> error + jsval" where
  "call fetch digits endpoint data method =
     (case fetch (build_request endpoint data method) of
        Inl e \<Rightarrow> Inl e
      | Inr r \<Rightarrow>
          if \<not> ok r then Inl (Thrown Error (failure_message digits r))
          else json_body r)"



section \<open>The page\<close>

text \<open>
  The part of the document the code touches. An element that the code finds by its
  id has a class list and an \<open>innerHTML\<close>; \<open>elems\<close> maps each id of the page to
  its element, so \<open>document.getElementById\<close> is a lookup that yields \<open>null\<close> (here
  \<open>None\<close>) for an unknown id. The tab buttons are the node list that \<open>setupTabs\<close>
  collects, each with its \<open>data-tab\<close> attribute (absent: \<open>None\<close>); \<open>tabContents\<close>
  are the ids of the elements of class \<open>tab-content\<close> collected there.
\<close>

record element =
  classes :: "string set"
  innerHTML :: string

record button =
  data_tab :: "string option"
  btn_classes :: "string set"

record page =
  currentTab :: "string option"
  tabBtns :: "button list"
  tabContents :: "string list"
  elems :: "string \<rightharpoonup> element"

definition add_class :: "string \<Rightarrow> element \<Rightarrow> element" where
  "add_class c e = e\<lparr>classes := insert c (classes e)\<rparr>"

definition remove_class :: "string \<Rightarrow> element \<Rightarrow> element" where
  "remove_class c e = e\<lparr>classes := classes e - {c}\<rparr>"

text \<open>Reading a property of \<open>null\<close> throws a TypeError (its text is the engine's).\<close>

definition null_deref :: error where
  "null_deref = Thrown TypeError ''Cannot read properties of null''"

text \<open>Look an element up by id and change it; the outcome is the error thrown, if any,
  and the page as the statement leaves it.\<close>

definition update_element :: "string \<Rightarrow> (element \<Rightarrow> element) \<Rightarrow> page \<Rightarrow> error option \<times> page" where
  "update_element i f p =
     (case elems p i of
        None \<Rightarrow> (Some null_deref, p)
      | Some e \<Rightarrow> (None, p\<lparr>elems := (elems p)(i \<mapsto> f e)\<rparr>))"





definition clearResult :: "string \<Rightarrow> page \<Rightarrow> error option \<times> page" where
  "clearResult containerId p =
     update_element containerId (\<lambda>e. (remove_class ''show'' e)\<lparr>innerHTML := []\<rparr>) p"

section \<open>InvestmentApp: tabs\<close>

text \<open>Remove a class from each of the listed elements.\<close>

definition remove_class_all :: "string \<Rightarrow> string list \<Rightarrow> (string \<rightharpoonup> element) \<Rightarrow> (string \<rightharpoonup> element)" where
  "remove_class_all c ids m =
     foldl (\<lambda>m i. case m i of None \<Rightarrow> m | Some e \<Rightarrow> m(i \<mapsto> remove_class c e)) m ids"

text \<open>
  The click handler that \<open>setupTabs\<close> installs on the button at position \<open>n\<close> of the
  node list. A button without a \<open>data-tab\<close> attribute gives \<open>undefined\<close>, which prints
  as \<open>undefined\<close> in the id of the result container.
\<close>

definition tab_click :: "nat \<Rightarrow> page \<Rightarrow> error option \<times> page" where
  "tab_click n p =
     (if length (tabBtns p) \<le> n then (None, p)
      else
        let tabId = data_tab (tabBtns p ! n);
            tabIdStr = (case tabId of None \<Rightarrow> ''undefined'' | Some t \<Rightarrow> t);
            inactive = map (\<lambda>b. b\<lparr>btn_classes := btn_classes b - {''active''}\<rparr>) (tabBtns p);
            btn = inactive ! n;
            p1 = p\<lparr>tabBtns := inactive[n := btn\<lparr>btn_classes := insert ''active'' (btn_classes btn)\<rparr>]\<rparr>;
            p2 = p1\<lparr>elems := remove_class_all ''active'' (tabContents p1) (elems p1)\<rparr>
        in case update_element tabIdStr (add_class ''active'') p2 of
             (Some e, p3) \<Rightarrow> (Some e, p3)
           | (None, p3) \<Rightarrow> clearResult (tabIdStr @ ''-result'') (p3\<lparr>currentTab := tabId\<rparr>))"

section \<open>InvestmentApp: submissions\<close>

text \<open>
  A submitted form: the entries that \<open>new FormData(form)\<close> lists, and the state of
  the checkbox \<open>is_compound\<close> (\<open>None\<close> when the form has no such input).
\<close>

record form =
  entries :: "(string \<times> string) list"
  is_compound_checked :: "bool option"











section \<open>Notions used in the statements\<close>

text \<open>What a result container shows: its content, and whether it has the class
  \<open>show\<close>.\<close>

definition panel :: "element \<Rightarrow> string \<times> bool" where
  "panel e = (innerHTML e, ''show'' \<in> classes e)"

text \<open>
  The coercion of a field in the words of the specification. A string parses fully
  as a float when, white space around it apart, the whole of it is a signed decimal
  literal or \<open>Infinity\<close>; the float is then the one \<open>parseFloat\<close> reads.
\<close>

definition parses_fully_as_float :: "string \<Rightarrow> bool" where
  "parses_fully_as_float v = (case read_decimal (trim v) of Some (x, []) \<Rightarrow> True | _ \<Rightarrow> False)"

definition spec_coerce_field :: "string \<Rightarrow> jsval" where
  "spec_coerce_field v =
     (if v = [] then JNull
      else if parses_fully_as_float v then JNum (parseFloat v)
      else if v = ''true'' then JBool True
      else if v = ''false'' then JBool False
      else JStr v)"

text \<open>A value that is not empty and is white space only, or a 0x/0o/0b literal:
  \<open>Number\<close> accepts these, the grammar of a float does not.\<close>

definition blank_or_radix :: "string \<Rightarrow> bool" where
  "blank_or_radix v = (v \<noteq> [] \<and> (trim v = [] \<or> read_radix_literal (trim v) \<noteq> None))"



text \<open>A page with two tabs, both result containers filled, and a goal form.\<close>

definition example_page :: page where
  "example_page =
     \<lparr>currentTab = Some ''bond'',
      tabBtns = [\<lparr>data_tab = Some ''bond'', btn_classes = {''tab-btn'', ''active''}\<rparr>,
                 \<lparr>data_tab = Some ''goal'', btn_classes = {''tab-btn''}\<rparr>],
      tabContents = [''bond'', ''goal''],
      elems = [''bond'' \<mapsto> \<lparr>classes = {''tab-content'', ''active''}, innerHTML = ''bond form''\<rparr>,
               ''goal'' \<mapsto> \<lparr>classes = {''tab-content''}, innerHTML = ''goal form''\<rparr>,
               ''bond-result'' \<mapsto> \<lparr>classes = {''show''}, innerHTML = ''bond figures''\<rparr>,
               ''goal-result'' \<mapsto> \<lparr>classes = {''show''}, innerHTML = ''goal figures''\<rparr>,
               ''loading'' \<mapsto> \<lparr>classes = {}, innerHTML = []\<rparr>]\<rparr>"


text \<open>Stand-ins for the parameters in the examples. A network that is down:\<close>

definition offline :: fetcher where
  "offline req = Inl (Thrown TypeError ''Failed to fetch'')"

text \<open>A network that answers every request with the same response.\<close>

definition always :: "response \<Rightarrow> fetcher" where
  "always r req = Inr r"

text \<open>Responses of a backend in trouble: a 500 with a detail, with a body that is not
  JSON, with an empty detail; and a 304.\<close>

definition overloaded_reply :: response where
  "overloaded_reply =
     \<lparr>status = 500, statusText = ''Internal Server Error'',
      json_body = Inr (JObj [(''detail'', JStr ''overloaded'')])\<rparr>"

definition unparsable_reply :: response where
  "unparsable_reply =
     \<lparr>status = 500, statusText = ''Internal Server Error'',
      json_body = Inl (Thrown SyntaxError ''Unexpected token'')\<rparr>"

definition empty_detail_reply :: response where
  "empty_detail_reply =
     \<lparr>status = 500, statusText = ''Internal Server Error'',
      json_body = Inr (JObj [(''detail'', JStr [])])\<rparr>"




text \<open>A platform that prints no fractions, and a rendering that leaves the page
  alone.\<close>

definition no_digits :: "rat \<Rightarrow> string" where
  "no_digits x = []"


section \<open>Tabs\<close>

lemma remove_class_all_panel:
  "c \<noteq> ''show'' \<Longrightarrow> map_option panel (remove_class_all c ids m i) = map_option panel (m i)"
  unfolding remove_class_all_def
  by (induction ids arbitrary: m) (auto simp: panel_def remove_class_def split: option.splits)

lemma remove_class_all_dom:
  "(remove_class_all c ids m i = None) = (m i = None)"
  unfolding remove_class_all_def
  by (induction ids arbitrary: m) (auto split: option.splits)

text \<open>
  C1, as the code has it. A click on the button of tab \<open>b\<close> (whose content element
  and result container exist) makes \<open>b\<close> the current tab and clears the result
  container of \<open>b\<close> itself, the tab switched to: its content becomes empty and it
  loses the class \<open>show\<close>. The result container of any other tab \<open>a\<close>, the previously
  active one included, keeps its content and its visibility.
\<close>

theorem tab_click_clears_new_tab:
  assumes btn: "n < length (tabBtns p)" "data_tab (tabBtns p ! n) = Some b"
    and content: "elems p b \<noteq> None"
    and result: "elems p (b @ ''-result'') \<noteq> None"
    and other: "a \<noteq> b"
  shows "fst (tab_click n p) = None
    \<and> currentTab (snd (tab_click n p)) = Some b
    \<and> map_option panel (elems (snd (tab_click n p)) (b @ ''-result'')) = Some ([], False)
    \<and> map_option panel (elems (snd (tab_click n p)) (a @ ''-result''))
        = map_option panel (elems p (a @ ''-result''))"
proof -
  obtain c where c: "remove_class_all ''active'' (tabContents p) (elems p) b = Some c"
    using content remove_class_all_dom [of "''active''" "tabContents p" "elems p" b] by auto
  have neq: "b \<noteq> b @ ''-result''" by simp
  obtain r where r: "remove_class_all ''active'' (tabContents p) (elems p) (b @ ''-result'') = Some r"
    using result remove_class_all_dom [of "''active''" "tabContents p" "elems p" "b @ ''-result''"]
    by auto
  have keep: "map_option panel (remove_class_all ''active'' (tabContents p) (elems p) (a @ ''-result''))
      = map_option panel (elems p (a @ ''-result''))"
    by (rule remove_class_all_panel) simp
  show ?thesis
    using btn other c r neq keep
    by (auto simp: tab_click_def Let_def update_element_def clearResult_def panel_def
        add_class_def remove_class_def)
qed

text \<open>The theorem at the example page: the bond tab is active, the goal button (at
  position 1) is clicked.\<close>

theorem tab_click_clears_new_tab_witness:
  "(1::nat) < length (tabBtns example_page)
   \<and> data_tab (tabBtns example_page ! 1) = Some ''goal''
   \<and> elems example_page ''goal'' \<noteq> None
   \<and> elems example_page ''goal-result'' \<noteq> None
   \<and> ''bond'' \<noteq> ''goal''
   \<and> fst (tab_click 1 example_page) = None
   \<and> currentTab (snd (tab_click 1 example_page)) = Some ''goal''
   \<and> map_option panel (elems (snd (tab_click 1 example_page)) ''goal-result'') = Some ([], False)
   \<and> map_option panel (elems (snd (tab_click 1 example_page)) ''bond-result'')
       = map_option panel (elems example_page ''bond-result'')"
proof -
  have h1: "(1::nat) < length (tabBtns example_page)"
    and h2: "data_tab (tabBtns example_page ! 1) = Some ''goal''"
    and h3: "elems example_page ''goal'' \<noteq> None"
    and h4: "elems example_page (''goal'' @ ''-result'') \<noteq> None"
    and h5: "''bond'' \<noteq> ''goal''"
    by (simp_all add: example_page_def)
  from tab_click_clears_new_tab [OF h1 h2 h3 h4 h5] h1 h2 h3 h4 h5 show ?thesis
    by simp
qed

text \<open>
  C1 as stated fails: with the bond tab active and both result containers filled, a
  click on the goal button leaves the result container of the bond tab (the
  previously active one) as it was, and empties that of the goal tab.
\<close>

theorem tab_click_keeps_previous_result:
  "currentTab example_page = Some ''bond''
   \<and> map_option panel (elems example_page ''goal-result'') = Some (''goal figures'', True)
   \<and> map_option panel (elems (snd (tab_click 1 example_page)) ''bond-result'')
       = Some (''bond figures'', True)
   \<and> map_option panel (elems (snd (tab_click 1 example_page)) ''goal-result'') = Some ([], False)"
  by (simp add: example_page_def tab_click_def Let_def update_element_def clearResult_def
      panel_def add_class_def remove_class_def remove_class_all_def)

section \<open>Formatting and validation of values\<close>





section \<open>Coercion of form fields\<close>



text \<open>
  C9. The numeric test of \<open>formDataToObject\<close> and its conversion disagree. A field
  holding one space passes the test (\<open>Number\<close> reads it as 0) and is stored as NaN,
  which is what \<open>parseFloat\<close> makes of it; a field holding \<open>0x10\<close> passes the test
  (\<open>Number\<close> reads it as 16) and is stored as 0.
\<close>

theorem loose_numeric_test_disagrees:
  "\<not> isNaN '' '' \<and> parseFloat '' '' = NaN
   \<and> formDataToObject [(''f'', '' '')] = [(''f'', JNum NaN)]
   \<and> \<not> isNaN ''0x10'' \<and> string_to_number ''0x10'' = Fin 16 \<and> parseFloat ''0x10'' = Fin 0
   \<and> formDataToObject [(''f'', ''0x10'')] = [(''f'', JNum (Fin 0))]"
  by code_simp



lemma read_unsigned_not_NaN: "read_unsigned s = Some (x, r) \<Longrightarrow> x \<noteq> NaN"
  by (auto simp: read_unsigned_def Let_def split: if_splits list.splits prod.splits)

lemma num_neg_NaN: "(num_neg a = NaN) = (a = NaN)"
  by (cases a) simp_all

lemma read_decimal_not_NaN: "read_decimal s = Some (x, r) \<Longrightarrow> x \<noteq> NaN"
  by (cases s) (auto simp: read_decimal_def num_neg_NaN dest: read_unsigned_not_NaN split: if_splits)

text \<open>Away from blank values and radix literals, the test \<open>!isNaN(value)\<close> holds
  exactly of the strings that parse fully as a float.\<close>

lemma numeric_test_is_float:
  assumes "v \<noteq> []" "\<not> blank_or_radix v"
  shows "(\<not> isNaN v) = parses_fully_as_float v"
proof -
  from assms have t: "trim v \<noteq> []" and r: "read_radix_literal (trim v) = None"
    by (auto simp: blank_or_radix_def)
  show ?thesis
    using t r
    by (auto simp: isNaN_def string_to_number_def parses_fully_as_float_def Let_def
        dest: read_decimal_not_NaN split: option.splits list.splits prod.splits)
qed

lemma coerce_field_spec: "\<not> blank_or_radix v \<Longrightarrow> coerce_field v = spec_coerce_field v"
  using numeric_test_is_float [of v]
  by (cases "v = []") (auto simp: coerce_field_def spec_coerce_field_def)

text \<open>On the values set apart the two do differ: the code stores what \<open>parseFloat\<close>
  reads, the rule keeps the string. So the code follows the rule on exactly the
  values that are neither blank nor a radix literal.\<close>

lemma trim_true: "trim ''true'' = ''true''" "trim ''false'' = ''false''"
  by (simp_all add: trim_def is_ws_def)

lemma radix_not_float:
  assumes "read_radix_literal t = Some n"
  shows "\<not> (case read_decimal t of Some (x, []) \<Rightarrow> True | _ \<Rightarrow> False)"
proof -
  from assms obtain p ds where t: "t = CHR ''0'' # p # ds"
    and p: "p \<in> {CHR ''x'', CHR ''X'', CHR ''o'', CHR ''O'', CHR ''b'', CHR ''B''}"
    by (auto simp: read_radix_literal_def Let_def split: list.splits if_splits)
  from p have nd: "\<not> is_digit p" and ne: "p \<noteq> CHR ''.''" "p \<noteq> CHR ''e''" "p \<noteq> CHR ''E''"
    by (auto simp: is_digit_def)
  have zero: "is_digit (CHR ''0'')" by (simp add: is_digit_def)
  have split: "takeWhile is_digit t = ''0''" "dropWhile is_digit t = p # ds"
    using nd zero by (simp_all add: t)
  have inf: "take 8 t \<noteq> ''Infinity''" by (simp add: t)
  have "read_unsigned t = Some (Fin 0, p # ds)"
    using ne inf
    by (simp add: read_unsigned_def split read_exponent_def digits_value_def digit_val_def
        scale10_def)
  then have "read_decimal t = Some (Fin 0, p # ds)"
    by (simp add: t read_decimal_def)
  then show ?thesis by simp
qed

lemma coerce_field_slip:
  assumes "blank_or_radix v"
  shows "coerce_field v = JNum (parseFloat v) \<and> spec_coerce_field v = JStr v"
proof -
  from assms have ne: "v \<noteq> []" by (simp add: blank_or_radix_def)
  from assms have t: "trim v \<noteq> ''true''" "trim v \<noteq> ''false''"
    by (auto simp: blank_or_radix_def read_radix_literal_def)
  then have vt: "v \<noteq> ''true''" "v \<noteq> ''false''"
    using trim_true by auto
  have num: "\<not> isNaN v"
    using assms
    by (auto simp: blank_or_radix_def isNaN_def string_to_number_def Let_def)
  have nofloat: "\<not> parses_fully_as_float v"
    using assms radix_not_float [of "trim v"]
    by (auto simp: blank_or_radix_def parses_fully_as_float_def read_decimal_def)
  from ne vt num nofloat show ?thesis
    by (simp add: coerce_field_def spec_coerce_field_def)
qed

lemma coerce_field_spec_iff: "(coerce_field v = spec_coerce_field v) = (\<not> blank_or_radix v)"
  using coerce_field_spec [of v] coerce_field_slip [of v] by auto




section \<open>The API client\<close>

declare show_nat.simps [simp del]

lemma show_nat_500: "show_nat 500 = ''500''"
  by code_simp

lemma failure_message_cases:
  "failure_message digits r =
     (case json_body r of
        Inr (JObj kvs) \<Rightarrow>
          if truthy (get_prop kvs ''detail'') then to_string digits (get_prop kvs ''detail'')
          else status_message r
      | _ \<Rightarrow> status_message r)"
  by (auto simp: failure_message_def Let_def split: sum.splits jsval.splits)

text \<open>
  C4, as the code has it. When the response is not ok, \<open>call\<close> fails with one Error.
  Its message is the \<open>detail\<close> of the body when the body parses as a JSON object whose
  \<open>detail\<close> is truthy: the detail string itself when \<open>detail\<close> is a string that is not
  empty, its conversion to a string otherwise. In every other case (a body that does
  not parse or is not an object, no \<open>detail\<close>, or a falsy one such as the empty
  string) the message is \<open>HTTP\<close>, the status code, a colon and the status text. A
  transport failure propagates the error \<open>fetch\<close> rejected with, unchanged.
\<close>

theorem call_failure_message:
  "(fetch (build_request endpoint data meth) = Inl e \<longrightarrow>
      call fetch digits endpoint data meth = Inl e)
   \<and> (fetch (build_request endpoint data meth) = Inr r \<and> \<not> ok r \<longrightarrow>
      call fetch digits endpoint data meth = Inl (Thrown Error (failure_message digits r))
      \<and> (\<forall>kvs s. json_body r = Inr (JObj kvs) \<and> get_prop kvs ''detail'' = JStr s \<and> s \<noteq> [] \<longrightarrow>
            failure_message digits r = s)
      \<and> (\<forall>kvs. json_body r = Inr (JObj kvs) \<and> truthy (get_prop kvs ''detail'') \<longrightarrow>
            failure_message digits r = to_string digits (get_prop kvs ''detail''))
      \<and> (\<forall>kvs. json_body r = Inr (JObj kvs) \<and> \<not> truthy (get_prop kvs ''detail'') \<longrightarrow>
            failure_message digits r = status_message r)
      \<and> ((\<forall>kvs. json_body r \<noteq> Inr (JObj kvs)) \<longrightarrow> failure_message digits r = status_message r)
      \<and> status_message r = ''HTTP '' @ show_nat (status r) @ '': '' @ statusText r)"
proof (intro conjI impI allI)
  assume "fetch (build_request endpoint data meth) = Inl e"
  then show "call fetch digits endpoint data meth = Inl e"
    by (simp add: call_def)
next
  assume "fetch (build_request endpoint data meth) = Inr r \<and> \<not> ok r"
  then show "call fetch digits endpoint data meth = Inl (Thrown Error (failure_message digits r))"
    by (simp add: call_def)
next
  fix kvs s
  assume "json_body r = Inr (JObj kvs) \<and> get_prop kvs ''detail'' = JStr s \<and> s \<noteq> []"
  then show "failure_message digits r = s"
    by (simp add: failure_message_cases)
next
  fix kvs
  assume "json_body r = Inr (JObj kvs) \<and> truthy (get_prop kvs ''detail'')"
  then show "failure_message digits r = to_string digits (get_prop kvs ''detail'')"
    by (simp add: failure_message_cases)
next
  fix kvs
  assume "json_body r = Inr (JObj kvs) \<and> \<not> truthy (get_prop kvs ''detail'')"
  then show "failure_message digits r = status_message r"
    by (simp add: failure_message_cases)
next
  assume "\<forall>kvs. json_body r \<noteq> Inr (JObj kvs)"
  then show "failure_message digits r = status_message r"
    by (auto simp: failure_message_cases split: sum.splits jsval.splits)
next
  show "status_message r = ''HTTP '' @ show_nat (status r) @ '': '' @ statusText r"
    by (simp add: status_message_def)
qed

text \<open>The theorem at a network that is down, at a 500 whose body carries the detail
  \<open>overloaded\<close>, and at a 500 whose body is not JSON.\<close>

theorem call_failure_message_witness:
  "offline (build_request ''/bond-deposit'' (JObj []) ''POST'') = Inl (Thrown TypeError ''Failed to fetch'')
   \<and> call offline no_digits ''/bond-deposit'' (JObj []) ''POST'' = Inl (Thrown TypeError ''Failed to fetch'')
   \<and> always overloaded_reply (build_request ''/bond-deposit'' (JObj []) ''POST'') = Inr overloaded_reply
   \<and> \<not> ok overloaded_reply
   \<and> call (always overloaded_reply) no_digits ''/bond-deposit'' (JObj []) ''POST''
       = Inl (Thrown Error ''overloaded'')
   \<and> always unparsable_reply (build_request ''/bond-deposit'' (JObj []) ''POST'') = Inr unparsable_reply
   \<and> \<not> ok unparsable_reply
   \<and> call (always unparsable_reply) no_digits ''/bond-deposit'' (JObj []) ''POST''
       = Inl (Thrown Error ''HTTP 500: Internal Server Error'')"
proof -
  let ?req = "build_request ''/bond-deposit'' (JObj []) ''POST''"
  have down: "offline ?req = Inl (Thrown TypeError ''Failed to fetch'')"
    by (simp add: offline_def)
  have busy: "always overloaded_reply ?req = Inr overloaded_reply \<and> \<not> ok overloaded_reply"
    by (simp add: always_def ok_def overloaded_reply_def)
  have broken: "always unparsable_reply ?req = Inr unparsable_reply \<and> \<not> ok unparsable_reply"
    by (simp add: always_def ok_def unparsable_reply_def)
  have c1: "call offline no_digits ''/bond-deposit'' (JObj []) ''POST''
      = Inl (Thrown TypeError ''Failed to fetch'')"
    using call_failure_message [where fetch = offline and endpoint = "''/bond-deposit''"
        and data = "JObj []" and meth = "''POST''" and digits = no_digits
        and e = "Thrown TypeError ''Failed to fetch''"] down
    by blast
  have "json_body overloaded_reply = Inr (JObj [(''detail'', JStr ''overloaded'')])
      \<and> get_prop [(''detail'', JStr ''overloaded'')] ''detail'' = JStr ''overloaded''
      \<and> ''overloaded'' \<noteq> []"
    by (simp add: overloaded_reply_def get_prop_def)
  with call_failure_message [where fetch = "always overloaded_reply"
        and endpoint = "''/bond-deposit''" and data = "JObj []" and meth = "''POST''"
        and digits = no_digits and r = overloaded_reply] busy
  have c2: "call (always overloaded_reply) no_digits ''/bond-deposit'' (JObj []) ''POST''
       = Inl (Thrown Error ''overloaded'')"
    by metis
  have "\<forall>kvs. json_body unparsable_reply \<noteq> Inr (JObj kvs)"
    by (simp add: unparsable_reply_def)
  with call_failure_message [where fetch = "always unparsable_reply"
        and endpoint = "''/bond-deposit''" and data = "JObj []" and meth = "''POST''"
        and digits = no_digits and r = unparsable_reply] broken
  have "call (always unparsable_reply) no_digits ''/bond-deposit'' (JObj []) ''POST''
       = Inl (Thrown Error
           (''HTTP '' @ show_nat (status unparsable_reply) @ '': '' @ statusText unparsable_reply))"
    by metis
  then have c3: "call (always unparsable_reply) no_digits ''/bond-deposit'' (JObj []) ''POST''
       = Inl (Thrown Error ''HTTP 500: Internal Server Error'')"
    by (simp add: unparsable_reply_def show_nat_500)
  from down busy broken c1 c2 c3 show ?thesis by blast
qed

text \<open>
  C4 as stated fails: a 500 whose body parses as JSON with the detail field \<open>""\<close> does
  not give the message \<open>""\<close>, but the message made of status code and status text.
\<close>

theorem call_empty_detail:
  "json_body empty_detail_reply = Inr (JObj [(''detail'', JStr [])])
   \<and> call (always empty_detail_reply) no_digits ''/bond-deposit'' (JObj []) ''POST''
       = Inl (Thrown Error ''HTTP 500: Internal Server Error'')"
  by code_simp




section \<open>Submissions\<close>








subsection \<open>The allocation check of the goal tab\<close>










end
